theory Spec2Isabelle
  imports Main "HOL-Library.Char_ord" "HOL-Library.List_Lexorder" "HOL-Library.Option_ord"
begin

section \<open>The catalog's data\<close>

text \<open>
  The controllers of the library catalog (\<^verbatim>\<open>genreController.js\<close>, the unnamed source
  file, and \<^verbatim>\<open>controllers/bookinstanceController.js\<close>) read and write three
  collections of a document store through an object-document mapper.  The schema files
  (\<^verbatim>\<open>models/genre.js\<close>, \<^verbatim>\<open>models/book.js\<close>, \<^verbatim>\<open>models/bookinstance.js\<close>) are
  not among the sources; the records below follow section 3 of the specification and the
  field names the controllers use.

  Text is modelled over the code units below 256, one \<^typ>\<open>char\<close> each.
\<close>

text \<open>
  A document id.  The store prints an id as 24 lower-case hexadecimal digits; the string
  held here is that print.
\<close>

datatype oid = ObjectId string

fun hexString :: "oid \<Rightarrow> string" where
  "hexString (ObjectId h) = h"

definition is_hex_digit :: "char \<Rightarrow> bool" where
  "is_hex_digit c = (c \<in> set ''0123456789abcdefABCDEF'')"

definition lower_hex :: "char \<Rightarrow> char" where
  "lower_hex c =
     (if c = CHR ''A'' then CHR ''a'' else if c = CHR ''B'' then CHR ''b''
      else if c = CHR ''C'' then CHR ''c'' else if c = CHR ''D'' then CHR ''d''
      else if c = CHR ''E'' then CHR ''e'' else if c = CHR ''F'' then CHR ''f'' else c)"

text \<open>
  The cast of a string to an id, as the mapper applies it to the id of a query and to a
  reference field when a document is constructed: a string of 24 hexadecimal digits is
  an id, any other string is not (the strings of 12 bytes that older drivers also read as
  ids are left out; the empty string is an id for none of them).
\<close>

definition castObjectId :: "string \<Rightarrow> oid option" where
  "castObjectId s =
     (if length s = 24 \<and> list_all is_hex_digit s then Some (ObjectId (map lower_hex s))
      else None)"

type_synonym date = int

text \<open>
  Modelled from the spec: the Genre schema, \<^verbatim>\<open>{ id, name (string, required) }\<close>, with
  the derived \<^verbatim>\<open>url = /catalog/genre/{id}\<close>.  A field of a document is \<open>None\<close> where
  JavaScript reads \<^verbatim>\<open>undefined\<close>.
\<close>

record genre =
  g_id :: oid
  g_name :: "string option"

definition genre_url :: "genre \<Rightarrow> string" where
  "genre_url g = ''/catalog/genre/'' @ hexString (g_id g)"

text \<open>
  Modelled from the spec: the Book schema, \<^verbatim>\<open>{ id, title, summary, genre (reference to
  Genre), ... }\<close>; the fields the specification leaves out are read by no handler here.
\<close>

record book =
  b_id :: oid
  b_title :: string
  b_summary :: string
  b_genre :: oid

text \<open>
  A date field of a document: not there, \<^verbatim>\<open>null\<close>, or a date.
\<close>

datatype datefield = Absent | IsNull | IsDate date

text \<open>
  Modelled from the spec: the BookInstance schema, \<^verbatim>\<open>{ id, book (reference to Book,
  required), imprint (string, required), status (enumerated string), due_back (optional
  date) }\<close>, with the derived \<^verbatim>\<open>url = /catalog/bookinstance/{id}\<close>.  The values of the
  status enumeration are in neither the sources nor the specification, so a status is
  kept as the string submitted.  The record serves for a stored document and for one a
  handler has constructed; only the latter can lack its id (when the handler gave the
  constructor an \<^verbatim>\<open>_id\<close> that is no id).
\<close>

record bookinstance =
  bi_id :: "oid option"
  bi_book :: "oid option"
  bi_imprint :: "string option"
  bi_status :: "string option"
  bi_due_back :: datefield

definition bookinstance_url :: "bookinstance \<Rightarrow> string" where
  "bookinstance_url b =
     ''/catalog/bookinstance/'' @ (case bi_id b of None \<Rightarrow> ''undefined'' | Some i \<Rightarrow> hexString i)"

text \<open>The store: each collection in the order a scan of it yields its documents.\<close>

record store =
  genres :: "genre list"
  books :: "book list"
  bookinstances :: "bookinstance list"

section \<open>Errors\<close>

text \<open>
  An error object: \<^verbatim>\<open>new Error(message)\<close> with its \<^verbatim>\<open>status\<close> when the handler sets
  one, a \<^verbatim>\<open>TypeError\<close> of the language, the validation error of a rejected save, or
  the cast error with which the store rejects a query whose id is no id (it carries the
  value refused).
\<close>

datatype error =
    Error string "nat option"
  | TypeError string
  | ValidationError string
  | CastError string

section \<open>The store's operations\<close>

text \<open>
  Modelled from the spec: the repository interface of its section 9 (find-by-id,
  find-all-sorted, find-by-filter, insert, update-by-id, delete-by-id), over the lists
  above, with the mapper's treatment of the ids the controllers hand it.  The controllers
  pass \<^verbatim>\<open>req.params.id\<close> and \<^verbatim>\<open>req.body.*\<close> as they come, so an operation by id takes
  a string: it casts the string first and, where the string is no id, rejects with a cast
  error (\<open>Inl\<close>).  Other failures of a store (no connection) are not modelled.
\<close>

definition genre_has_id :: "genre \<Rightarrow> oid \<Rightarrow> bool" where
  "genre_has_id g i = (g_id g = i)"

definition bookinstance_has_id :: "bookinstance \<Rightarrow> oid \<Rightarrow> bool" where
  "bookinstance_has_id b i = (bi_id b = Some i)"

definition findById :: "('a \<Rightarrow> oid \<Rightarrow> bool) \<Rightarrow> string \<Rightarrow> 'a list \<Rightarrow> error + 'a option" where
  "findById has_id s xs =
     (case castObjectId s of
        None \<Rightarrow> Inl (CastError s)
      | Some i \<Rightarrow> Inr (find (\<lambda>x. has_id x i) xs))"

fun delete_first :: "('a \<Rightarrow> bool) \<Rightarrow> 'a list \<Rightarrow> 'a list" where
  "delete_first P [] = []"
| "delete_first P (x # xs) = (if P x then xs else x # delete_first P xs)"


text \<open>
  Delete-by-id deletes the first document with the id and nothing where there is none.
  The id is a form field, which a request may leave out: without it the filter is empty,
  and the first document of the collection matches it.
\<close>

definition findByIdAndDelete ::
  "('a \<Rightarrow> oid \<Rightarrow> bool) \<Rightarrow> string option \<Rightarrow> 'a list \<Rightarrow> error + 'a list" where
  "findByIdAndDelete has_id v xs =
     (case v of
        None \<Rightarrow> Inr (delete_first (\<lambda>x. True) xs)
      | Some s \<Rightarrow>
          (case castObjectId s of
             None \<Rightarrow> Inl (CastError s)
           | Some i \<Rightarrow> Inr (delete_first (\<lambda>x. has_id x i) xs)))"



text \<open>
  A query's \<^verbatim>\<open>sort({ field: 1 })\<close>: ascending by the value each document has under the
  field's name, a document without the field counting as null, below every string;
  strings compare code unit by code unit.  Documents with equal keys are taken to keep
  the order of the collection, as a stable sort leaves them; no key decides among them.
\<close>

definition sort_asc :: "(string \<Rightarrow> 'a \<Rightarrow> string option) \<Rightarrow> string \<Rightarrow> 'a list \<Rightarrow> 'a list" where
  "sort_asc getter field xs = sort_key (getter field) xs"

text \<open>The string fields of a Genre and of a Book, by name.\<close>

definition genre_get :: "string \<Rightarrow> genre \<Rightarrow> string option" where
  "genre_get field g = (if field = ''name'' then g_name g else None)"

definition book_get :: "string \<Rightarrow> book \<Rightarrow> string option" where
  "book_get field b =
     (if field = ''title'' then Some (b_title b)
      else if field = ''summary'' then Some (b_summary b) else None)"

text \<open>
  A query's projection: the fields named are kept next to the id, the others are left
  undefined; without a projection the whole document is returned.
\<close>

record book_doc =
  bd_id :: oid
  bd_title :: "string option"
  bd_summary :: "string option"
  bd_genre :: "oid option"

definition select :: "string list option \<Rightarrow> book \<Rightarrow> book_doc" where
  "select proj b =
     (case proj of
        None \<Rightarrow>
          \<lparr>bd_id = b_id b, bd_title = Some (b_title b), bd_summary = Some (b_summary b),
           bd_genre = Some (b_genre b)\<rparr>
      | Some fs \<Rightarrow>
          \<lparr>bd_id = b_id b,
           bd_title = (if ''title'' \<in> set fs then Some (b_title b) else None),
           bd_summary = (if ''summary'' \<in> set fs then Some (b_summary b) else None),
           bd_genre = (if ''genre'' \<in> set fs then Some (b_genre b) else None)\<rparr>)"

text \<open>
  \<^verbatim>\<open>Book.find({ genre: id }, projection)\<close>: the id of the filter is cast like the id of
  a query by id.
\<close>

definition find_books_by_genre ::
  "string \<Rightarrow> string list option \<Rightarrow> book list \<Rightarrow> error + book_doc list" where
  "find_books_by_genre s proj bs =
     (case castObjectId s of
        None \<Rightarrow> Inl (CastError s)
      | Some i \<Rightarrow> Inr (map (select proj) (filter (\<lambda>b. b_genre b = i) bs)))"

text \<open>
  \<^verbatim>\<open>await Promise.all([a, b])\<close>: both reads are issued, and a rejection of either
  rejects the whole.  The two reads of a genre handler cast the same string, so both are
  rejected or neither, and with the same error.
\<close>

definition Promise_all :: "error + 'a \<Rightarrow> error + 'b \<Rightarrow> error + 'a \<times> 'b" where
  "Promise_all a b =
     (case a of
        Inl e \<Rightarrow> Inl e
      | Inr x \<Rightarrow> (case b of Inl e \<Rightarrow> Inl e | Inr y \<Rightarrow> Inr (x, y)))"

section \<open>Requests and responses\<close>

text \<open>
  A value of a form field after the validation chain has run on it: the string
  submitted, or what a sanitizer put in its place.
\<close>

datatype jsval = Undefined | Null | Str string | DateVal date

text \<open>
  A request: the route parameter \<^verbatim>\<open>req.params.id\<close>, a string, and the fields of
  \<^verbatim>\<open>req.body\<close> that the handlers read.  A field the form did not send is \<open>None\<close>.
\<close>

record request =
  params_id :: string
  body_name :: "string option"
  body_genreid :: "string option"
  body_book :: "string option"
  body_imprint :: "string option"
  body_status :: "string option"
  body_due_back :: jsval
  body_bookinstanceid :: "string option"

text \<open>One entry of \<^verbatim>\<open>errors.array()\<close>: the field, the message and the value refused.\<close>

record verror =
  err_path :: string
  err_msg :: string
  err_value :: string

text \<open>A local handed to a template.\<close>

datatype local_val =
    VStr string
  | VGenre "genre option"
  | VGenres "genre list"
  | VBooks "book_doc list"
  | VOid oid
  | VErrors "verror list"
  | VBookInstance bookinstance

text \<open>
  What a handler does with the response: \<^verbatim>\<open>res.render(view, locals)\<close>,
  \<^verbatim>\<open>res.redirect(url)\<close>, or \<^verbatim>\<open>next(err)\<close>, called by the handler itself, by its
  \<^verbatim>\<open>catch\<close>, or by \<^verbatim>\<open>asyncHandler\<close> when a rejected promise or a throw reaches it.
\<close>

datatype response =
    Render string "(string \<times> local_val) list"
  | Redirect string
  | Next error

text \<open>
  The status line: no handler sets a status, so a rendered page goes out with 200 and a
  redirect with 302; after \<^verbatim>\<open>next(err)\<close> the generic error handler decides.
\<close>

fun http_status :: "response \<Rightarrow> nat option" where
  "http_status (Render v ls) = Some 200"
| "http_status (Redirect u) = Some 302"
| "http_status (Next e) = None"

section \<open>Validation chains\<close>

text \<open>
  The sanitizers and validators of the chains, as the validation library defines them.
  \<^verbatim>\<open>trim\<close> strips white space (the class \<^verbatim>\<open>\s\<close>) from both ends; \<^verbatim>\<open>escape\<close> replaces
  the eight characters \<^verbatim>\<open>& " ' < > / \ `\<close> by their entities; \<^verbatim>\<open>isLength({ min: n })\<close>
  counts code units.
\<close>

definition is_space :: "char \<Rightarrow> bool" where
  "is_space c =
     (c = CHR 0x09 \<or> c = CHR 0x0A \<or> c = CHR 0x0B \<or> c = CHR 0x0C \<or> c = CHR 0x0D
      \<or> c = CHR 0x20 \<or> c = CHR 0xA0)"

definition trim :: "string \<Rightarrow> string" where
  "trim s = rev (dropWhile is_space (rev (dropWhile is_space s)))"

definition escape_char :: "char \<Rightarrow> string" where
  "escape_char c =
     (if c = CHR 0x26 then ''&amp;''
      else if c = CHR 0x22 then ''&quot;''
      else if c = CHR 0x27 then ''&#x27;''
      else if c = CHR 0x3C then ''&lt;''
      else if c = CHR 0x3E then ''&gt;''
      else if c = CHR 0x2F then ''&#x2F;''
      else if c = CHR 0x5C then ''&#x5C;''
      else if c = CHR 0x60 then ''&#96;''
      else [c])"

definition escape :: "string \<Rightarrow> string" where
  "escape s = concat (map escape_char s)"

text \<open>A chain reads a field as a string: a field that was not sent reads as the empty string.\<close>

definition toString :: "string option \<Rightarrow> string" where
  "toString v = (case v of None \<Rightarrow> [] | Some s \<Rightarrow> s)"

definition isLength_min :: "string \<Rightarrow> string \<Rightarrow> nat \<Rightarrow> string \<Rightarrow> verror list" where
  "isLength_min path msg n v =
     (if n \<le> length v then [] else [\<lparr>err_path = path, err_msg = msg, err_value = v\<rparr>])"

text \<open>
  What the handlers reach and the sources do not hold is a parameter of the model, and
  every theorem below holds for all values of it: two functions of the validation library
  and one of the mapper whose definitions are long (a regular expression for ISO 8601,
  the date parser of the language), and the defaults the BookInstance schema may give to
  \<^verbatim>\<open>status\<close> and \<^verbatim>\<open>due_back\<close>, of which the specification says nothing.  \<open>toDate\<close> is
  \<open>None\<close> where the sanitizer yields \<^verbatim>\<open>null\<close>; \<open>castDate\<close> is \<open>None\<close> where the
  schema's date type refuses the string; a default is \<open>None\<close> where the schema has none.
\<close>

record library =
  isISO8601 :: "string \<Rightarrow> bool"
  toDate :: "string \<Rightarrow> date option"
  castDate :: "string \<Rightarrow> date option"
  default_status :: "string option"
  default_due_back :: "date option"

text \<open>
  A request on its way through a route's middleware: the request, whose body the
  sanitizers rewrite, and the errors the validators have recorded on it so far.  A
  request comes in with none; \<^verbatim>\<open>validationResult(req)\<close> reads them.
\<close>

type_synonym vrequest = "request \<times> verror list"

definition incoming :: "request \<Rightarrow> vrequest" where
  "incoming r = (r, [])"

definition validationResult :: "vrequest \<Rightarrow> verror list" where
  "validationResult vr = snd vr"

section \<open>The Genre controller\<close>

text \<open>
  \<^verbatim>\<open>genre_list\<close>:
  \<^verbatim>\<open>const allGenres = await Genre.find().sort({ genre_name: 1 }).exec();\<close>
\<close>

definition genre_list :: "store \<Rightarrow> request \<Rightarrow> store \<times> response" where
  "genre_list st r =
     (let allGenres = sort_asc genre_get ''genre_name'' (genres st)
      in (st, Render ''genre_list''
                [(''title'', VStr ''Genre List''), (''genre_list'', VGenres allGenres)]))"

text \<open>
  \<^verbatim>\<open>genre_detail\<close>: the genre and its books are read; a rejected read reaches
  \<^verbatim>\<open>asyncHandler\<close>, which calls \<^verbatim>\<open>next\<close>; a missing genre is a 404.
\<close>

definition genre_detail :: "store \<Rightarrow> request \<Rightarrow> store \<times> response" where
  "genre_detail st r =
     (case Promise_all (findById genre_has_id (params_id r) (genres st))
             (find_books_by_genre (params_id r) (Some [''title'', ''summary'']) (books st)) of
        Inl err \<Rightarrow> (st, Next err)
      | Inr (genre, booksInGenre) \<Rightarrow>
          (case genre of
             None \<Rightarrow> (st, Next (Error ''Genre not found'' (Some 404)))
           | Some g \<Rightarrow>
               (st, Render ''genre_detail''
                      [(''title'', VStr ''Genre Detail''), (''genre'', VGenre (Some g)),
                       (''genre_books'', VBooks booksInGenre)])))"

text \<open>
  \<^verbatim>\<open>genre_create_post\<close>, first element:
  \<^verbatim>\<open>body("name", "Genre name must contain at least 3 characters").trim().isLength({ min: 3 }).escape()\<close>.
  The sanitizers run whether or not the validator between them fails, and the value
  written back to \<^verbatim>\<open>req.body.name\<close> is the trimmed and escaped one.
\<close>

definition genre_create_post_validate :: "vrequest \<Rightarrow> vrequest" where
  "genre_create_post_validate vr =
     (let r = fst vr; v = trim (toString (body_name r))
      in (r\<lparr>body_name := Some (escape v)\<rparr>,
          snd vr @ isLength_min ''name'' ''Genre name must contain at least 3 characters'' 3 v))"

text \<open>\<^verbatim>\<open>Genre.findOne({ name: ... })\<close>: the first genre of the collection with that name.\<close>

definition findOne_genre_name :: "string option \<Rightarrow> genre list \<Rightarrow> genre option" where
  "findOne_genre_name n gs = find (\<lambda>g. g_name g = n) gs"

text \<open>
  \<^verbatim>\<open>genre.save()\<close>: the document is validated against the schema (the name is required)
  and inserted; a document that fails validation rejects the save.
\<close>

definition genre_save :: "genre \<Rightarrow> store \<Rightarrow> error + store" where
  "genre_save g st =
     (if g_name g = None \<or> g_name g = Some [] then Inl (ValidationError ''Genre validation failed'')
      else Inr (st\<lparr>genres := genres st @ [g]\<rparr>))"

text \<open>
  \<^verbatim>\<open>genre_create_post\<close>, second element.  \<open>new_id\<close> is the id the document constructor
  draws for \<^verbatim>\<open>new Genre({ name: req.body.name })\<close>.
\<close>

definition genre_create_post_handler :: "oid \<Rightarrow> store \<Rightarrow> vrequest \<Rightarrow> store \<times> response" where
  "genre_create_post_handler new_id st vr =
     (let errors = validationResult vr;
          r = fst vr;
          genre = \<lparr>g_id = new_id, g_name = body_name r\<rparr>
      in if errors \<noteq> [] then
           (st, Render ''genre_form''
                  [(''title'', VStr ''Create Genre''), (''genre'', VGenre (Some genre)),
                   (''errors'', VErrors errors)])
         else
           (case findOne_genre_name (body_name r) (genres st) of
              Some genreExists \<Rightarrow> (st, Redirect (genre_url genreExists))
            | None \<Rightarrow>
                (case genre_save genre st of
                   Inl e \<Rightarrow> (st, Next e)
                 | Inr st' \<Rightarrow> (st', Redirect (genre_url genre)))))"

definition genre_create_post :: "oid \<Rightarrow> store \<Rightarrow> request \<Rightarrow> store \<times> response" where
  "genre_create_post new_id st r =
     genre_create_post_handler new_id st (genre_create_post_validate (incoming r))"

text \<open>
  \<^verbatim>\<open>genre_delete_get\<close>: a missing genre redirects to the list; \<^verbatim>\<open>catch (err)\<close> hands a
  rejected read to \<^verbatim>\<open>next\<close>.
\<close>

definition genre_delete_get :: "store \<Rightarrow> request \<Rightarrow> store \<times> response" where
  "genre_delete_get st r =
     (case Promise_all (findById genre_has_id (params_id r) (genres st))
             (find_books_by_genre (params_id r) (Some [''title'']) (books st)) of
        Inl err \<Rightarrow> (st, Next err)
      | Inr (genre, booksUsingGenre) \<Rightarrow>
          (case genre of
             None \<Rightarrow> (st, Redirect ''/catalog/genres'')
           | Some g \<Rightarrow>
               (st, Render ''genre_delete''
                      [(''title'', VStr ''Delete Genre''), (''genre'', VGenre (Some g)),
                       (''books_using_genre'', VBooks booksUsingGenre)])))"

text \<open>
  \<^verbatim>\<open>genre_delete_post\<close>: the genre and its books are read by \<^verbatim>\<open>req.params.id\<close>; the
  delete is by \<^verbatim>\<open>req.body.genreid\<close>; \<^verbatim>\<open>catch (err)\<close> hands a rejected read or a
  rejected delete to \<^verbatim>\<open>next\<close>.
\<close>

definition genre_delete_post :: "store \<Rightarrow> request \<Rightarrow> store \<times> response" where
  "genre_delete_post st r =
     (case Promise_all (findById genre_has_id (params_id r) (genres st))
             (find_books_by_genre (params_id r) None (books st)) of
        Inl err \<Rightarrow> (st, Next err)
      | Inr (genre, booksUsingGenre) \<Rightarrow>
          if length booksUsingGenre > 0 then
            (st, Render ''genre_delete''
                   [(''title'', VStr ''Delete Genre''), (''genre'', VGenre genre),
                    (''books_using_genre'', VBooks booksUsingGenre)])
          else
            (case findByIdAndDelete genre_has_id (body_genreid r) (genres st) of
               Inl err \<Rightarrow> (st, Next err)
             | Inr gs \<Rightarrow> (st\<lparr>genres := gs\<rparr>, Redirect ''/catalog/genres'')))"

section \<open>The BookInstance controller\<close>

text \<open>
  The document constructor \<^verbatim>\<open>new BookInstance({ ... })\<close>: each value is cast to the type
  of its field, and a value its type refuses leaves the field undefined.  The date type
  reads the empty string as \<^verbatim>\<open>null\<close>.  A field left undefined takes the default of
  the schema, where the schema has one.
\<close>

definition default_due :: "library \<Rightarrow> datefield" where
  "default_due lib = (case default_due_back lib of None \<Rightarrow> Absent | Some d \<Rightarrow> IsDate d)"

definition castDate_val :: "library \<Rightarrow> jsval \<Rightarrow> datefield" where
  "castDate_val lib v =
     (case v of
        Undefined \<Rightarrow> default_due lib
      | Null \<Rightarrow> IsNull
      | Str s \<Rightarrow>
          (if s = [] then IsNull
           else (case castDate lib s of None \<Rightarrow> default_due lib | Some d \<Rightarrow> IsDate d))
      | DateVal d \<Rightarrow> IsDate d)"

definition new_BookInstance ::
  "library \<Rightarrow> oid option \<Rightarrow> string option \<Rightarrow> string option \<Rightarrow> string option \<Rightarrow> jsval
     \<Rightarrow> bookinstance" where
  "new_BookInstance lib i book imprint status due_back =
     \<lparr>bi_id = i,
      bi_book = (case book of None \<Rightarrow> None | Some s \<Rightarrow> castObjectId s),
      bi_imprint = imprint,
      bi_status = (case status of None \<Rightarrow> default_status lib | Some s \<Rightarrow> Some s),
      bi_due_back = castDate_val lib due_back\<rparr>"

text \<open>
  \<^verbatim>\<open>bookinstance_create_post\<close>, the four chains:
  \<^verbatim>\<open>body("book", "Book must be specified").trim().isLength({ min: 1 }).escape()\<close>,
  \<^verbatim>\<open>body("imprint", "Imprint must be specified").trim().isLength({ min: 1 }).escape()\<close>,
  \<^verbatim>\<open>body("status").escape()\<close> and
  \<^verbatim>\<open>body("due_back", "Invalid date").optional({ values: "falsy" }).isISO8601().toDate()\<close>.
  The last one leaves a falsy value (none, \<^verbatim>\<open>null\<close>, the empty string) as it is; a date
  object prints as ISO 8601 and stays.
\<close>

definition validate_book :: "vrequest \<Rightarrow> vrequest" where
  "validate_book vr =
     (let r = fst vr; v = trim (toString (body_book r))
      in (r\<lparr>body_book := Some (escape v)\<rparr>,
          snd vr @ isLength_min ''book'' ''Book must be specified'' 1 v))"

definition validate_imprint :: "vrequest \<Rightarrow> vrequest" where
  "validate_imprint vr =
     (let r = fst vr; v = trim (toString (body_imprint r))
      in (r\<lparr>body_imprint := Some (escape v)\<rparr>,
          snd vr @ isLength_min ''imprint'' ''Imprint must be specified'' 1 v))"

definition sanitize_status :: "vrequest \<Rightarrow> vrequest" where
  "sanitize_status vr =
     (let r = fst vr in (r\<lparr>body_status := Some (escape (toString (body_status r)))\<rparr>, snd vr))"

definition validate_due_back :: "library \<Rightarrow> vrequest \<Rightarrow> vrequest" where
  "validate_due_back lib vr =
     (let r = fst vr
      in case body_due_back r of
           Str s \<Rightarrow>
             (if s = [] then vr
              else (r\<lparr>body_due_back := (case toDate lib s of None \<Rightarrow> Null | Some d \<Rightarrow> DateVal d)\<rparr>,
                    snd vr @ (if isISO8601 lib s then []
                              else [\<lparr>err_path = ''due_back'', err_msg = ''Invalid date'',
                                     err_value = s\<rparr>])))
         | _ \<Rightarrow> vr)"

text \<open>
  \<^verbatim>\<open>bookInstance.save()\<close>: the document is validated against the schema (book and
  imprint are required) and inserted.
\<close>

definition bookinstance_save :: "bookinstance \<Rightarrow> store \<Rightarrow> error + store" where
  "bookinstance_save b st =
     (if bi_book b = None \<or> bi_imprint b = None \<or> bi_imprint b = Some [] then
        Inl (ValidationError ''BookInstance validation failed'')
      else Inr (st\<lparr>bookinstances := bookinstances st @ [b]\<rparr>))"

text \<open>
  \<^verbatim>\<open>bookinstance_create_post\<close>, the handler.  \<open>new_id\<close> is the id the constructor draws.
  In the branch for errors the locals are built after the books are read, and
  \<^verbatim>\<open>selected_book: bookInstance.book._id\<close> reads a property of \<^verbatim>\<open>bookInstance.book\<close>:
  where the cast left that field undefined the read throws, and \<^verbatim>\<open>asyncHandler\<close> hands
  the \<^verbatim>\<open>TypeError\<close> to \<^verbatim>\<open>next\<close>.
\<close>

definition bookinstance_create_post_handler ::
  "library \<Rightarrow> oid \<Rightarrow> store \<Rightarrow> vrequest \<Rightarrow> store \<times> response" where
  "bookinstance_create_post_handler lib new_id st vr =
     (let errors = validationResult vr;
          r = fst vr;
          bookInstance = new_BookInstance lib (Some new_id) (body_book r) (body_imprint r)
                           (body_status r) (body_due_back r)
      in if errors \<noteq> [] then
           (let allBooks = map (select (Some [''title''])) (sort_asc book_get ''title'' (books st))
            in case bi_book bookInstance of
                 None \<Rightarrow>
                   (st, Next (TypeError ''Cannot read properties of undefined (reading '_id')''))
               | Some selected \<Rightarrow>
                   (st, Render ''bookinstance_form''
                          [(''title'', VStr ''Create BookInstance''), (''book_list'', VBooks allBooks),
                           (''selected_book'', VOid selected), (''errors'', VErrors errors),
                           (''bookinstance'', VBookInstance bookInstance)]))
         else
           (case bookinstance_save bookInstance st of
              Inl e \<Rightarrow> (st, Next e)
            | Inr st' \<Rightarrow> (st', Redirect (bookinstance_url bookInstance))))"

definition bookinstance_create_post :: "library \<Rightarrow> oid \<Rightarrow> store \<Rightarrow> request \<Rightarrow> store \<times> response" where
  "bookinstance_create_post lib new_id st r =
     bookinstance_create_post_handler lib new_id st
       (validate_due_back lib (sanitize_status (validate_imprint (validate_book (incoming r)))))"

text \<open>
  \<^verbatim>\<open>bookinstance_delete_post\<close>: the delete is by \<^verbatim>\<open>req.body.bookinstanceid\<close>;
  \<^verbatim>\<open>catch (err)\<close> hands a rejected delete to \<^verbatim>\<open>next\<close>.
\<close>

definition bookinstance_delete_post :: "store \<Rightarrow> request \<Rightarrow> store \<times> response" where
  "bookinstance_delete_post st r =
     (case findByIdAndDelete bookinstance_has_id (body_bookinstanceid r) (bookinstances st) of
        Inl err \<Rightarrow> (st, Next err)
      | Inr bs \<Rightarrow> (st\<lparr>bookinstances := bs\<rparr>, Redirect ''/catalog/bookinstances''))"



section \<open>Example data\<close>

text \<open>A small catalog and a request, for the concrete instances below.\<close>

definition ex_idA :: oid where
  "ex_idA = ObjectId ''aaaaaaaaaaaaaaaaaaaaaaaa''"

definition ex_idB :: oid where
  "ex_idB = ObjectId ''bbbbbbbbbbbbbbbbbbbbbbbb''"

definition ex_idC :: oid where
  "ex_idC = ObjectId ''cccccccccccccccccccccccc''"

definition ex_idD :: oid where
  "ex_idD = ObjectId ''dddddddddddddddddddddddd''"

definition ex_request :: request where
  "ex_request =
     \<lparr>params_id = ''aaaaaaaaaaaaaaaaaaaaaaaa'', body_name = None,
      body_genreid = Some ''aaaaaaaaaaaaaaaaaaaaaaaa'', body_book = None,
      body_imprint = None, body_status = None, body_due_back = Undefined,
      body_bookinstanceid = Some ''aaaaaaaaaaaaaaaaaaaaaaaa''\<rparr>"

definition ex_store :: store where
  "ex_store =
     \<lparr>genres = [\<lparr>g_id = ex_idA, g_name = Some ''Science''\<rparr>,
                \<lparr>g_id = ex_idB, g_name = Some ''Fantasy''\<rparr>],
      books = [\<lparr>b_id = ex_idC, b_title = ''Dune'', b_summary = ''Sand'', b_genre = ex_idA\<rparr>],
      bookinstances = []\<rparr>"

text \<open>A catalog whose only book references a genre that is not in it.\<close>

definition ex_store_dangling :: store where
  "ex_store_dangling =
     \<lparr>genres = [\<lparr>g_id = ex_idA, g_name = Some ''Science''\<rparr>,
                \<lparr>g_id = ex_idD, g_name = Some ''Horror''\<rparr>],
      books = [\<lparr>b_id = ex_idC, b_title = ''Dune'', b_summary = ''Sand'', b_genre = ex_idB\<rparr>],
      bookinstances = []\<rparr>"

text \<open>
  The catalog after the genre \<^verbatim>\<open>R&B\<close> has been created through \<^verbatim>\<open>genre_create_post\<close>:
  the name stored is the escaped one.
\<close>

definition ex_store_escaped :: store where
  "ex_store_escaped =
     \<lparr>genres = [\<lparr>g_id = ex_idA, g_name = Some ''R&amp;B''\<rparr>], books = [], bookinstances = []\<rparr>"

text \<open>A catalog with two copies of one book.\<close>

definition ex_copyA :: bookinstance where
  "ex_copyA =
     \<lparr>bi_id = Some ex_idA, bi_book = Some ex_idC, bi_imprint = Some ''Ace 1990'',
      bi_status = Some ''Available'', bi_due_back = IsDate 1700000000000\<rparr>"

definition ex_copyB :: bookinstance where
  "ex_copyB =
     \<lparr>bi_id = Some ex_idB, bi_book = Some ex_idC, bi_imprint = Some ''Gollancz 2001'',
      bi_status = Some ''Loaned'', bi_due_back = IsNull\<rparr>"

definition ex_copies :: store where
  "ex_copies =
     \<lparr>genres = [],
      books = [\<lparr>b_id = ex_idC, b_title = ''Dune'', b_summary = ''Sand'', b_genre = ex_idA\<rparr>],
      bookinstances = [ex_copyA, ex_copyB]\<rparr>"


section \<open>Facts about the store's operations\<close>

lemma castObjectId_ex_idA: "castObjectId ''aaaaaaaaaaaaaaaaaaaaaaaa'' = Some ex_idA"
  by (simp add: castObjectId_def is_hex_digit_def lower_hex_def ex_idA_def)

lemma castObjectId_ex_idB: "castObjectId ''bbbbbbbbbbbbbbbbbbbbbbbb'' = Some ex_idB"
  by (simp add: castObjectId_def is_hex_digit_def lower_hex_def ex_idB_def)

lemma castObjectId_ex_idC: "castObjectId ''cccccccccccccccccccccccc'' = Some ex_idC"
  by (simp add: castObjectId_def is_hex_digit_def lower_hex_def ex_idC_def)

lemma castObjectId_ex_idD: "castObjectId ''dddddddddddddddddddddddd'' = Some ex_idD"
  by (simp add: castObjectId_def is_hex_digit_def lower_hex_def ex_idD_def)

lemma castObjectId_eeee:
  "castObjectId ''eeeeeeeeeeeeeeeeeeeeeeee'' = Some (ObjectId ''eeeeeeeeeeeeeeeeeeeeeeee'')"
  by (simp add: castObjectId_def is_hex_digit_def lower_hex_def)

lemma castObjectId_xyz: "castObjectId ''xyz'' = None"
  by (simp add: castObjectId_def)

lemma castObjectId_empty: "castObjectId [] = None"
  by (simp add: castObjectId_def)

lemma ex_ids_distinct:
  "ex_idA \<noteq> ex_idB" "ex_idA \<noteq> ex_idC" "ex_idA \<noteq> ex_idD" "ex_idB \<noteq> ex_idC"
  "ex_idB \<noteq> ex_idD" "ex_idC \<noteq> ex_idD"
  by (simp_all add: ex_idA_def ex_idB_def ex_idC_def ex_idD_def)

lemma sort_asc_missing_field:
  assumes "\<And>x. getter field x = None"
  shows "sort_asc getter field xs = xs"
proof -
  have "getter field = (\<lambda>x. None)"
    by (rule ext) (rule assms)
  then show ?thesis
    by (simp add: sort_asc_def sort_key_const)
qed

lemma genre_list_store_order:
  "genre_list st r =
     (st, Render ''genre_list''
            [(''title'', VStr ''Genre List''), (''genre_list'', VGenres (genres st))])"
  by (simp add: genre_list_def genre_get_def sort_asc_missing_field)

lemma sorted_sort_asc: "sorted (map (getter field) (sort_asc getter field xs))"
  by (simp add: sort_asc_def)

lemma set_sort_asc: "set (sort_asc getter field xs) = set xs"
  by (simp add: sort_asc_def)

lemma find_first_match:
  assumes "\<exists>x \<in> set xs. P x"
  shows "\<exists>y. find P xs = Some y \<and> y \<in> set xs \<and> P y"
proof (cases "find P xs")
  case None
  with assms show ?thesis by (simp add: find_None_iff)
next
  case (Some y)
  then show ?thesis by (auto simp: find_Some_iff)
qed

lemma find_no_match: "\<forall>x \<in> set xs. \<not> P x \<Longrightarrow> find P xs = None"
  by (simp add: find_None_iff)

lemma delete_first_absent: "\<forall>x \<in> set xs. \<not> P x \<Longrightarrow> delete_first P xs = xs"
  by (induction xs) auto

lemma delete_first_distinct:
  "distinct (map k xs) \<Longrightarrow> delete_first (\<lambda>x. k x = v) xs = filter (\<lambda>x. k x \<noteq> v) xs"
proof (induction xs)
  case Nil
  then show ?case by simp
next
  case (Cons x xs)
  show ?case
  proof (cases "k x = v")
    case True
    from Cons.prems have "k x \<notin> k ` set xs" by simp
    with True have "\<forall>y \<in> set xs. k y \<noteq> v" by blast
    then have "filter (\<lambda>y. k y \<noteq> v) xs = xs" by (simp add: filter_id_conv)
    with True show ?thesis by simp
  next
    case False
    with Cons show ?thesis by simp
  qed
qed


text \<open>The two reads of the genre handlers, for a route id that is an id and for one that is not.\<close>

lemma genre_reads_castable:
  assumes "castObjectId s = Some i"
  shows "Promise_all (findById genre_has_id s gs) (find_books_by_genre s proj bs) =
           Inr (find (\<lambda>g. g_id g = i) gs, map (select proj) (filter (\<lambda>b. b_genre b = i) bs))"
  using assms
  by (simp add: Promise_all_def findById_def find_books_by_genre_def genre_has_id_def)

lemma genre_reads_uncastable:
  assumes "castObjectId s = None"
  shows "Promise_all (findById genre_has_id s gs) (find_books_by_genre s proj bs) =
           Inl (CastError s)"
  using assms
  by (simp add: Promise_all_def findById_def)

section \<open>Deleting a genre\<close>

text \<open>
  C1.  Whenever at least one book references the genre of the route's id, the handler of
  \<^verbatim>\<open>genre_delete_post\<close> leaves the store as it was, no genre deleted, and renders the
  confirmation view \<^verbatim>\<open>genre_delete\<close> again with the genre found under that id and with
  exactly the books that reference it, each in full.  A book references an id, so the
  route's id is one: \<open>i\<close> is the id it casts to.
\<close>

theorem genre_delete_post_refuses_while_referenced:
  assumes "castObjectId (params_id r) = Some i"
    and "\<exists>b \<in> set (books st). b_genre b = i"
  shows "genre_delete_post st r =
     (st, Render ''genre_delete''
            [(''title'', VStr ''Delete Genre''),
             (''genre'', VGenre (find (\<lambda>g. g_id g = i) (genres st))),
             (''books_using_genre'',
              VBooks (map (select None) (filter (\<lambda>b. b_genre b = i) (books st))))])"
proof -
  from assms(2) have "filter (\<lambda>b. b_genre b = i) (books st) \<noteq> []"
    by (simp add: filter_empty_conv)
  then show ?thesis
    by (simp add: genre_delete_post_def genre_reads_castable [OF assms(1)])
qed

theorem genre_delete_post_refuses_witness:
  "genre_delete_post ex_store ex_request =
     (ex_store, Render ''genre_delete''
            [(''title'', VStr ''Delete Genre''),
             (''genre'', VGenre (Some \<lparr>g_id = ex_idA, g_name = Some ''Science''\<rparr>)),
             (''books_using_genre'',
              VBooks [\<lparr>bd_id = ex_idC, bd_title = Some ''Dune'', bd_summary = Some ''Sand'',
                       bd_genre = Some ex_idA\<rparr>])])"
  using genre_delete_post_refuses_while_referenced [of ex_request ex_idA ex_store]
  by (simp add: ex_store_def ex_request_def castObjectId_ex_idA select_def ex_ids_distinct)

text \<open>
  C9, as amended.  Whenever the route's id is an id that no book references and the
  form's \<^verbatim>\<open>genreid\<close> is an id, \<^verbatim>\<open>genre_delete_post\<close> deletes the genre with the id of
  \<^verbatim>\<open>genreid\<close> and redirects to the genre list; ids being unique in the collection, the
  genres left are exactly those with another id.
\<close>

theorem genre_delete_post_deletes_unreferenced:
  assumes "castObjectId (params_id r) = Some i"
    and "\<forall>b \<in> set (books st). b_genre b \<noteq> i"
    and "body_genreid r = Some s"
    and "castObjectId s = Some j"
  shows "genre_delete_post st r =
           (st\<lparr>genres := delete_first (\<lambda>g. g_id g = j) (genres st)\<rparr>,
            Redirect ''/catalog/genres'')
         \<and> (distinct (map g_id (genres st)) \<longrightarrow>
              genres (fst (genre_delete_post st r)) =
                filter (\<lambda>g. g_id g \<noteq> j) (genres st))"
proof -
  from assms(2) have none: "filter (\<lambda>b. b_genre b = i) (books st) = []"
    by (simp add: filter_empty_conv)
  have run: "genre_delete_post st r =
           (st\<lparr>genres := delete_first (\<lambda>g. g_id g = j) (genres st)\<rparr>,
            Redirect ''/catalog/genres'')"
    using none assms(3,4)
    by (simp add: genre_delete_post_def genre_reads_castable [OF assms(1)]
          findByIdAndDelete_def genre_has_id_def)
  then show ?thesis
    by (simp add: delete_first_distinct)
qed

theorem genre_delete_post_deletes_witness:
  "genre_delete_post ex_store
     (ex_request\<lparr>params_id := ''bbbbbbbbbbbbbbbbbbbbbbbb'',
        body_genreid := Some ''bbbbbbbbbbbbbbbbbbbbbbbb''\<rparr>) =
     (ex_store\<lparr>genres := [\<lparr>g_id = ex_idA, g_name = Some ''Science''\<rparr>]\<rparr>,
      Redirect ''/catalog/genres'')"
  using genre_delete_post_deletes_unreferenced
          [of "ex_request\<lparr>params_id := ''bbbbbbbbbbbbbbbbbbbbbbbb'',
                 body_genreid := Some ''bbbbbbbbbbbbbbbbbbbbbbbb''\<rparr>"
              ex_idB ex_store "''bbbbbbbbbbbbbbbbbbbbbbbb''" ex_idB]
  by (simp add: ex_store_def ex_request_def castObjectId_ex_idB ex_ids_distinct)

text \<open>
  C9, as stated, fails.  No book references the route's id, but the form's \<^verbatim>\<open>genreid\<close>
  is no id: the store rejects the delete, \<^verbatim>\<open>catch\<close> calls \<^verbatim>\<open>next\<close> with the cast error,
  no genre is removed and there is no redirect.
\<close>

theorem genre_delete_post_bad_genreid_counterexample:
  "filter (\<lambda>b. b_genre b = ex_idB) (books ex_store) = []
   \<and> genre_delete_post ex_store
       (ex_request\<lparr>params_id := ''bbbbbbbbbbbbbbbbbbbbbbbb'', body_genreid := Some ''xyz''\<rparr>) =
       (ex_store, Next (CastError ''xyz''))"
  by (simp add: genre_delete_post_def genre_reads_castable [OF castObjectId_ex_idB]
        findByIdAndDelete_def castObjectId_xyz ex_store_def ex_request_def ex_ids_distinct)

text \<open>
  C10, as amended.  For a route id that is an id and that no genre has,
  \<^verbatim>\<open>genre_delete_get\<close> redirects to the list, but \<^verbatim>\<open>genre_delete_post\<close> has no such
  branch: if no book references the id and the form's \<^verbatim>\<open>genreid\<close> is an id, it still
  deletes the genre of \<^verbatim>\<open>genreid\<close> and redirects to the list, and if books reference the
  id it renders the confirmation view with a null genre.
\<close>

theorem genre_delete_post_missing_genre:
  assumes "castObjectId (params_id r) = Some i"
    and "\<forall>g \<in> set (genres st). g_id g \<noteq> i"
  shows "genre_delete_get st r = (st, Redirect ''/catalog/genres'')
         \<and> ((\<forall>b \<in> set (books st). b_genre b \<noteq> i) \<and> body_genreid r = Some s
                \<and> castObjectId s = Some j \<longrightarrow>
              genre_delete_post st r =
                (st\<lparr>genres := delete_first (\<lambda>g. g_id g = j) (genres st)\<rparr>,
                 Redirect ''/catalog/genres'')
              \<and> (distinct (map g_id (genres st)) \<longrightarrow>
                   genres (fst (genre_delete_post st r)) =
                     filter (\<lambda>g. g_id g \<noteq> j) (genres st)))
         \<and> ((\<exists>b \<in> set (books st). b_genre b = i) \<longrightarrow>
              genre_delete_post st r =
                (st, Render ''genre_delete''
                       [(''title'', VStr ''Delete Genre''), (''genre'', VGenre None),
                        (''books_using_genre'',
                         VBooks (map (select None) (filter (\<lambda>b. b_genre b = i) (books st))))]))"
proof -
  from assms(2) have missing: "find (\<lambda>g. g_id g = i) (genres st) = None"
    by (simp add: find_None_iff)
  have get: "genre_delete_get st r = (st, Redirect ''/catalog/genres'')"
    using missing by (simp add: genre_delete_get_def genre_reads_castable [OF assms(1)])
  have unreferenced: "genre_delete_post st r =
                (st\<lparr>genres := delete_first (\<lambda>g. g_id g = j) (genres st)\<rparr>,
                 Redirect ''/catalog/genres'')
              \<and> (distinct (map g_id (genres st)) \<longrightarrow>
                   genres (fst (genre_delete_post st r)) =
                     filter (\<lambda>g. g_id g \<noteq> j) (genres st))"
    if "\<forall>b \<in> set (books st). b_genre b \<noteq> i" and "body_genreid r = Some s"
      and "castObjectId s = Some j"
  proof -
    from that(1) have "filter (\<lambda>b. b_genre b = i) (books st) = []"
      by (simp add: filter_empty_conv)
    then have "genre_delete_post st r =
                (st\<lparr>genres := delete_first (\<lambda>g. g_id g = j) (genres st)\<rparr>,
                 Redirect ''/catalog/genres'')"
      using that(2,3)
      by (simp add: genre_delete_post_def genre_reads_castable [OF assms(1)]
            findByIdAndDelete_def genre_has_id_def)
    then show ?thesis
      by (simp add: delete_first_distinct)
  qed
  have referenced: "genre_delete_post st r =
                (st, Render ''genre_delete''
                       [(''title'', VStr ''Delete Genre''), (''genre'', VGenre None),
                        (''books_using_genre'',
                         VBooks (map (select None) (filter (\<lambda>b. b_genre b = i) (books st))))])"
    if "\<exists>b \<in> set (books st). b_genre b = i"
  proof -
    from that have "filter (\<lambda>b. b_genre b = i) (books st) \<noteq> []"
      by (simp add: filter_empty_conv)
    then show ?thesis
      using missing by (simp add: genre_delete_post_def genre_reads_castable [OF assms(1)])
  qed
  from get unreferenced referenced show ?thesis by blast
qed

text \<open>
  Both branches at work, on the catalog that holds Science and Horror and a book of a
  genre it does not hold.  Under an id that is no genre's and no book's, the post deletes
  the genre the form names, Science, and leaves Horror; under the id the book references
  it renders the view with no genre.
\<close>

theorem genre_delete_post_missing_genre_witness:
  "genre_delete_post ex_store_dangling (ex_request\<lparr>params_id := ''eeeeeeeeeeeeeeeeeeeeeeee''\<rparr>) =
     (ex_store_dangling\<lparr>genres := [\<lparr>g_id = ex_idD, g_name = Some ''Horror''\<rparr>]\<rparr>,
      Redirect ''/catalog/genres'')
   \<and> genre_delete_post ex_store_dangling (ex_request\<lparr>params_id := ''bbbbbbbbbbbbbbbbbbbbbbbb''\<rparr>) =
       (ex_store_dangling,
        Render ''genre_delete''
          [(''title'', VStr ''Delete Genre''), (''genre'', VGenre None),
           (''books_using_genre'',
            VBooks [\<lparr>bd_id = ex_idC, bd_title = Some ''Dune'', bd_summary = Some ''Sand'',
                     bd_genre = Some ex_idB\<rparr>])])
   \<and> genre_delete_get ex_store_dangling (ex_request\<lparr>params_id := ''bbbbbbbbbbbbbbbbbbbbbbbb''\<rparr>) =
       (ex_store_dangling, Redirect ''/catalog/genres'')"
  using genre_delete_post_missing_genre
          [of "ex_request\<lparr>params_id := ''eeeeeeeeeeeeeeeeeeeeeeee''\<rparr>"
              "ObjectId ''eeeeeeeeeeeeeeeeeeeeeeee''" ex_store_dangling
              "''aaaaaaaaaaaaaaaaaaaaaaaa''" ex_idA]
        genre_delete_post_missing_genre
          [of "ex_request\<lparr>params_id := ''bbbbbbbbbbbbbbbbbbbbbbbb''\<rparr>" ex_idB ex_store_dangling]
  by (simp add: ex_store_dangling_def ex_request_def castObjectId_ex_idA castObjectId_ex_idB
        castObjectId_eeee select_def ex_ids_distinct)
     (simp add: ex_idA_def ex_idB_def ex_idD_def)

text \<open>
  C10, as stated, fails.  The route id \<^verbatim>\<open>xyz\<close> matches no genre and no book references
  it, but the store rejects both reads, \<^verbatim>\<open>catch\<close> calls \<^verbatim>\<open>next\<close> with the cast error,
  and the handler neither deletes by the form's \<^verbatim>\<open>genreid\<close> nor redirects.
\<close>

theorem genre_delete_post_bad_route_id_counterexample:
  "list_all (\<lambda>g. hexString (g_id g) \<noteq> ''xyz'') (genres ex_store)
   \<and> list_all (\<lambda>b. hexString (b_genre b) \<noteq> ''xyz'') (books ex_store)
   \<and> genre_delete_post ex_store (ex_request\<lparr>params_id := ''xyz''\<rparr>) =
       (ex_store, Next (CastError ''xyz''))"
  by (simp add: genre_delete_post_def genre_reads_uncastable [OF castObjectId_xyz]
        ex_store_def ex_request_def ex_idA_def ex_idB_def)

section \<open>A genre that is not there\<close>

text \<open>
  C6, as amended.  For every route id that is an id and that no genre of the store has,
  \<^verbatim>\<open>genre_detail\<close> hands \<^verbatim>\<open>next\<close> the error \<^verbatim>\<open>Genre not found\<close> with status 404, while
  \<^verbatim>\<open>genre_delete_get\<close> redirects to the genre list and raises no error.
\<close>

theorem genre_missing_detail_and_delete_get:
  assumes "castObjectId (params_id r) = Some i"
    and "\<forall>g \<in> set (genres st). g_id g \<noteq> i"
  shows "genre_detail st r = (st, Next (Error ''Genre not found'' (Some 404)))
         \<and> genre_delete_get st r = (st, Redirect ''/catalog/genres'')"
proof -
  from assms(2) have "find (\<lambda>g. g_id g = i) (genres st) = None"
    by (simp add: find_None_iff)
  then show ?thesis
    by (simp add: genre_detail_def genre_delete_get_def genre_reads_castable [OF assms(1)])
qed

theorem genre_missing_witness:
  "genre_detail ex_store (ex_request\<lparr>params_id := ''cccccccccccccccccccccccc''\<rparr>) =
     (ex_store, Next (Error ''Genre not found'' (Some 404)))
   \<and> genre_delete_get ex_store (ex_request\<lparr>params_id := ''cccccccccccccccccccccccc''\<rparr>) =
       (ex_store, Redirect ''/catalog/genres'')"
  using genre_missing_detail_and_delete_get
          [of "ex_request\<lparr>params_id := ''cccccccccccccccccccccccc''\<rparr>" ex_idC ex_store]
  by (simp add: ex_store_def ex_request_def castObjectId_ex_idC ex_ids_distinct)

text \<open>
  C6, as stated, fails.  The route id \<^verbatim>\<open>xyz\<close> matches no genre, but it is no id: the
  store rejects the read, and both handlers call \<^verbatim>\<open>next\<close> with the cast error,
  \<^verbatim>\<open>genre_detail\<close> through \<^verbatim>\<open>asyncHandler\<close> and \<^verbatim>\<open>genre_delete_get\<close> through its
  \<^verbatim>\<open>catch\<close>: no 404 from the one, no redirect from the other.
\<close>

theorem genre_missing_bad_route_id_counterexample:
  "list_all (\<lambda>g. hexString (g_id g) \<noteq> ''xyz'') (genres ex_store)
   \<and> genre_detail ex_store (ex_request\<lparr>params_id := ''xyz''\<rparr>) =
       (ex_store, Next (CastError ''xyz''))
   \<and> genre_delete_get ex_store (ex_request\<lparr>params_id := ''xyz''\<rparr>) =
       (ex_store, Next (CastError ''xyz''))"
  by (simp add: genre_detail_def genre_delete_get_def genre_reads_uncastable [OF castObjectId_xyz]
        ex_store_def ex_request_def ex_idA_def ex_idB_def)

section \<open>Deleting and updating a book instance\<close>

text \<open>
  C8, as amended.  Whenever the form's \<^verbatim>\<open>bookinstanceid\<close> is an id,
  \<^verbatim>\<open>bookinstance_delete_post\<close> deletes the instance with that id, checking neither
  dependents nor existence, and redirects to the list of book instances: ids being
  unique, the instances left are exactly those with another id, and where no instance has
  the id the store is unchanged and the redirect is the same.
\<close>

theorem bookinstance_delete_post_unconditional:
  assumes "body_bookinstanceid r = Some s"
    and "castObjectId s = Some i"
  shows "bookinstance_delete_post st r =
     (st\<lparr>bookinstances := delete_first (\<lambda>b. bi_id b = Some i) (bookinstances st)\<rparr>,
      Redirect ''/catalog/bookinstances'')
   \<and> (distinct (map bi_id (bookinstances st)) \<longrightarrow>
        bookinstances (fst (bookinstance_delete_post st r)) =
          filter (\<lambda>b. bi_id b \<noteq> Some i) (bookinstances st))
   \<and> ((\<forall>b \<in> set (bookinstances st). bi_id b \<noteq> Some i) \<longrightarrow>
        bookinstance_delete_post st r = (st, Redirect ''/catalog/bookinstances''))"
proof -
  have run: "bookinstance_delete_post st r =
     (st\<lparr>bookinstances := delete_first (\<lambda>b. bi_id b = Some i) (bookinstances st)\<rparr>,
      Redirect ''/catalog/bookinstances'')"
    using assms
    by (simp add: bookinstance_delete_post_def findByIdAndDelete_def bookinstance_has_id_def)
  have unique: "bookinstances (fst (bookinstance_delete_post st r)) =
          filter (\<lambda>b. bi_id b \<noteq> Some i) (bookinstances st)"
    if "distinct (map bi_id (bookinstances st))"
    using that by (simp add: run delete_first_distinct)
  have absent: "bookinstance_delete_post st r = (st, Redirect ''/catalog/bookinstances'')"
    if "\<forall>b \<in> set (bookinstances st). bi_id b \<noteq> Some i"
    using that by (simp add: run delete_first_absent)
  from run unique absent show ?thesis by blast
qed

text \<open>
  Of the two copies the one the form names goes and the other stays; under an id that no
  copy has, both stay.
\<close>

theorem bookinstance_delete_post_witness:
  "bookinstance_delete_post ex_copies ex_request =
     (ex_copies\<lparr>bookinstances := [ex_copyB]\<rparr>, Redirect ''/catalog/bookinstances'')
   \<and> bookinstance_delete_post ex_copies
       (ex_request\<lparr>body_bookinstanceid := Some ''dddddddddddddddddddddddd''\<rparr>) =
       (ex_copies, Redirect ''/catalog/bookinstances'')"
  using bookinstance_delete_post_unconditional
          [of ex_request "''aaaaaaaaaaaaaaaaaaaaaaaa''" ex_idA ex_copies]
        bookinstance_delete_post_unconditional
          [of "ex_request\<lparr>body_bookinstanceid := Some ''dddddddddddddddddddddddd''\<rparr>"
              "''dddddddddddddddddddddddd''" ex_idD ex_copies]
  by (simp add: ex_copies_def ex_copyA_def ex_copyB_def ex_request_def castObjectId_ex_idA
        castObjectId_ex_idD ex_ids_distinct)

text \<open>
  C8, as stated, fails.  The form's \<^verbatim>\<open>bookinstanceid\<close> is \<^verbatim>\<open>xyz\<close>, which is no id: the
  store rejects the delete and \<^verbatim>\<open>catch\<close> calls \<^verbatim>\<open>next\<close> with the cast error, so the
  response is not a redirect.
\<close>

theorem bookinstance_delete_post_bad_id_counterexample:
  "bookinstance_delete_post ex_copies (ex_request\<lparr>body_bookinstanceid := Some ''xyz''\<rparr>) =
     (ex_copies, Next (CastError ''xyz''))"
  by (simp add: bookinstance_delete_post_def findByIdAndDelete_def castObjectId_xyz
        ex_request_def)




section \<open>Listing the genres\<close>

text \<open>
  C4.  The claim is that \<^verbatim>\<open>genre_list\<close> hands the view all genres in ascending order of
  their names.  The handler sorts on \<^verbatim>\<open>genre_name\<close>, a field no genre has (the handlers
  that create and look up genres use \<^verbatim>\<open>name\<close>), so every key is null and the genres come
  in the order of the collection.  On the catalog that holds Science before Fantasy the
  view receives Science before Fantasy, which is not ascending by name; sorted on
  \<^verbatim>\<open>name\<close> the same catalog lists Fantasy first.
\<close>

theorem genre_list_not_sorted_by_name:
  "genre_list ex_store ex_request =
     (ex_store, Render ''genre_list''
        [(''title'', VStr ''Genre List''),
         (''genre_list'', VGenres [\<lparr>g_id = ex_idA, g_name = Some ''Science''\<rparr>,
                                   \<lparr>g_id = ex_idB, g_name = Some ''Fantasy''\<rparr>])])
   \<and> \<not> sorted (map g_name [\<lparr>g_id = ex_idA, g_name = Some ''Science''\<rparr>,
                            \<lparr>g_id = ex_idB, g_name = Some ''Fantasy''\<rparr>])
   \<and> sort_asc genre_get ''name'' (genres ex_store) =
       [\<lparr>g_id = ex_idB, g_name = Some ''Fantasy''\<rparr>, \<lparr>g_id = ex_idA, g_name = Some ''Science''\<rparr>]"
proof -
  have order: "\<not> Some ''Science'' \<le> Some ''Fantasy''"
    by (simp add: less_eq_char_def)
  have listed: "genre_list ex_store ex_request =
     (ex_store, Render ''genre_list''
        [(''title'', VStr ''Genre List''),
         (''genre_list'', VGenres [\<lparr>g_id = ex_idA, g_name = Some ''Science''\<rparr>,
                                   \<lparr>g_id = ex_idB, g_name = Some ''Fantasy''\<rparr>])])"
    by (simp add: genre_list_store_order) (simp add: ex_store_def)
  have by_name: "sort_asc genre_get ''name'' (genres ex_store) =
       [\<lparr>g_id = ex_idB, g_name = Some ''Fantasy''\<rparr>, \<lparr>g_id = ex_idA, g_name = Some ''Science''\<rparr>]"
    using order by (simp add: sort_asc_def genre_get_def ex_store_def)
  from order listed by_name show ?thesis by simp
qed

section \<open>Creating a genre\<close>

lemma genre_create_post_validate_incoming:
  "genre_create_post_validate (incoming r) =
     (r\<lparr>body_name := Some (escape (trim (toString (body_name r))))\<rparr>,
      isLength_min ''name'' ''Genre name must contain at least 3 characters'' 3
        (trim (toString (body_name r))))"
  by (simp add: genre_create_post_validate_def incoming_def Let_def)

text \<open>
  C2, as amended.  The handler looks the genre up by the name the chain has written back,
  the submitted name trimmed and then escaped.  Whenever the trimmed name has at least 3
  characters and that sanitized name is the name of a genre in the store, nothing is
  inserted and the response redirects to the detail URL of the first genre of that name.
\<close>

theorem genre_create_post_existing_name:
  assumes "3 \<le> length (trim (toString (body_name r)))"
    and "\<exists>g \<in> set (genres st). g_name g = Some (escape (trim (toString (body_name r))))"
  shows "\<exists>g. findOne_genre_name (Some (escape (trim (toString (body_name r))))) (genres st) = Some g
             \<and> g \<in> set (genres st)
             \<and> g_name g = Some (escape (trim (toString (body_name r))))
             \<and> genre_create_post new_id st r = (st, Redirect (genre_url g))"
proof -
  let ?name = "Some (escape (trim (toString (body_name r))))"
  from assms(2) obtain g where g: "find (\<lambda>g. g_name g = ?name) (genres st) = Some g"
      "g \<in> set (genres st)" "g_name g = ?name"
    using find_first_match [of "genres st" "\<lambda>g. g_name g = ?name"] by blast
  from assms(1) have ok: "isLength_min ''name'' ''Genre name must contain at least 3 characters'' 3
        (trim (toString (body_name r))) = []"
    by (simp add: isLength_min_def)
  have "genre_create_post new_id st r = (st, Redirect (genre_url g))"
    using g(1) ok
    by (simp add: genre_create_post_def genre_create_post_validate_incoming
          genre_create_post_handler_def validationResult_def findOne_genre_name_def)
  with g show ?thesis
    by (simp add: findOne_genre_name_def)
qed

text \<open>
  Submitting \<^verbatim>\<open>R&B\<close> with spaces around it, when the store holds the genre created from
  \<^verbatim>\<open>R&B\<close> before, redirects to that genre.
\<close>

theorem genre_create_post_existing_name_witness:
  "genre_create_post ex_idD ex_store_escaped (ex_request\<lparr>body_name := Some '' R&B ''\<rparr>) =
     (ex_store_escaped, Redirect ''/catalog/genre/aaaaaaaaaaaaaaaaaaaaaaaa'')"
  using genre_create_post_existing_name
          [of "ex_request\<lparr>body_name := Some '' R&B ''\<rparr>" ex_store_escaped ex_idD]
  by (simp add: ex_store_escaped_def ex_request_def ex_idA_def toString_def trim_def
        is_space_def escape_def escape_char_def findOne_genre_name_def genre_url_def)

text \<open>
  C2, as stated, fails.  The name submitted is, character for character, the name of the
  genre in the store, and it passes validation; the chain escapes its ampersand once
  more, the lookup by the escaped name finds nothing, and a second genre is inserted.
\<close>

theorem genre_create_post_stored_name_counterexample:
  "3 \<le> length (trim ''R&amp;B'')
   \<and> g_name (hd (genres ex_store_escaped)) = Some ''R&amp;B''
   \<and> genre_create_post ex_idD ex_store_escaped (ex_request\<lparr>body_name := Some ''R&amp;B''\<rparr>) =
       (ex_store_escaped\<lparr>genres := [\<lparr>g_id = ex_idA, g_name = Some ''R&amp;B''\<rparr>,
                                     \<lparr>g_id = ex_idD, g_name = Some ''R&amp;amp;B''\<rparr>]\<rparr>,
        Redirect ''/catalog/genre/dddddddddddddddddddddddd'')"
  by (simp add: genre_create_post_def genre_create_post_validate_incoming
        genre_create_post_handler_def validationResult_def findOne_genre_name_def
        isLength_min_def genre_save_def genre_url_def
        ex_store_escaped_def ex_request_def ex_idA_def ex_idD_def toString_def trim_def
        is_space_def escape_def escape_char_def)

text \<open>
  C5, as amended.  Whenever the submitted name, trimmed, has fewer than 3 characters,
  the store is left as it was and the response renders the form \<^verbatim>\<open>genre_form\<close> again,
  with status 200, with a genre whose name is the submitted one trimmed and then escaped,
  and with one error, on the field \<^verbatim>\<open>name\<close>.
\<close>

theorem genre_create_post_short_name:
  assumes "length (trim (toString (body_name r))) < 3"
  shows "genre_create_post new_id st r =
     (st, Render ''genre_form''
            [(''title'', VStr ''Create Genre''),
             (''genre'', VGenre (Some \<lparr>g_id = new_id,
                                      g_name = Some (escape (trim (toString (body_name r))))\<rparr>)),
             (''errors'', VErrors [\<lparr>err_path = ''name'',
                                    err_msg = ''Genre name must contain at least 3 characters'',
                                    err_value = trim (toString (body_name r))\<rparr>])])
     \<and> http_status (snd (genre_create_post new_id st r)) = Some 200"
proof -
  from assms have bad: "isLength_min ''name'' ''Genre name must contain at least 3 characters'' 3
        (trim (toString (body_name r))) =
      [\<lparr>err_path = ''name'', err_msg = ''Genre name must contain at least 3 characters'',
        err_value = trim (toString (body_name r))\<rparr>]"
    by (simp add: isLength_min_def)
  have "genre_create_post new_id st r =
     (st, Render ''genre_form''
            [(''title'', VStr ''Create Genre''),
             (''genre'', VGenre (Some \<lparr>g_id = new_id,
                                      g_name = Some (escape (trim (toString (body_name r))))\<rparr>)),
             (''errors'', VErrors [\<lparr>err_path = ''name'',
                                    err_msg = ''Genre name must contain at least 3 characters'',
                                    err_value = trim (toString (body_name r))\<rparr>])])"
    by (simp add: genre_create_post_def genre_create_post_validate_incoming
          genre_create_post_handler_def validationResult_def bad)
  then show ?thesis by simp
qed

theorem genre_create_post_short_name_witness:
  "genre_create_post ex_idD ex_store (ex_request\<lparr>body_name := Some '' ab ''\<rparr>) =
     (ex_store, Render ''genre_form''
            [(''title'', VStr ''Create Genre''),
             (''genre'', VGenre (Some \<lparr>g_id = ex_idD, g_name = Some ''ab''\<rparr>)),
             (''errors'', VErrors [\<lparr>err_path = ''name'',
                                    err_msg = ''Genre name must contain at least 3 characters'',
                                    err_value = ''ab''\<rparr>])])"
  using genre_create_post_short_name [of "ex_request\<lparr>body_name := Some '' ab ''\<rparr>" ex_idD ex_store]
  by (simp add: ex_request_def toString_def trim_def is_space_def escape_def escape_char_def)

text \<open>
  C5, as stated, fails in one point: the value the form is rendered with is not the value
  entered.  For the two characters \<^verbatim>\<open><b\<close> the form comes back with \<^verbatim>\<open>&lt;b\<close>.
\<close>

theorem genre_create_post_entered_value_counterexample:
  "length (trim ''<b'') < 3
   \<and> genre_create_post ex_idD ex_store (ex_request\<lparr>body_name := Some ''<b''\<rparr>) =
       (ex_store, Render ''genre_form''
            [(''title'', VStr ''Create Genre''),
             (''genre'', VGenre (Some \<lparr>g_id = ex_idD, g_name = Some ''&lt;b''\<rparr>)),
             (''errors'', VErrors [\<lparr>err_path = ''name'',
                                    err_msg = ''Genre name must contain at least 3 characters'',
                                    err_value = ''<b''\<rparr>])])
   \<and> ''&lt;b'' \<noteq> ''<b''"
  by (simp add: genre_create_post_def genre_create_post_validate_incoming
        genre_create_post_handler_def validationResult_def isLength_min_def
        ex_request_def toString_def trim_def is_space_def escape_def escape_char_def)

section \<open>Creating a book instance\<close>

lemma validate_chain_incoming:
  "validate_due_back lib (sanitize_status (validate_imprint (validate_book (incoming r)))) =
     (let book = trim (toString (body_book r));
          imprint = trim (toString (body_imprint r));
          r' = r\<lparr>body_book := Some (escape book), body_imprint := Some (escape imprint),
                 body_status := Some (escape (toString (body_status r)))\<rparr>;
          errs = isLength_min ''book'' ''Book must be specified'' 1 book
                 @ isLength_min ''imprint'' ''Imprint must be specified'' 1 imprint
      in case body_due_back r of
           Str s \<Rightarrow>
             (if s = [] then (r', errs)
              else (r'\<lparr>body_due_back := (case toDate lib s of None \<Rightarrow> Null | Some d \<Rightarrow> DateVal d)\<rparr>,
                    errs @ (if isISO8601 lib s then []
                              else [\<lparr>err_path = ''due_back'', err_msg = ''Invalid date'',
                                     err_value = s\<rparr>])))
         | _ \<Rightarrow> (r', errs))"
  by (simp add: validate_due_back_def sanitize_status_def validate_imprint_def validate_book_def
        incoming_def Let_def split: jsval.splits)

text \<open>
  What \<^verbatim>\<open>bookinstance_create_post\<close> does with a \<^verbatim>\<open>due_back\<close> that is not empty and not
  ISO 8601: nothing is inserted; where the sanitized \<^verbatim>\<open>book\<close> is an id, the form is
  rendered again with the books sorted by title, that id selected, the errors and the
  document built from the sanitized values; where it is not, the handler throws.
\<close>

lemma bookinstance_create_post_invalid_date:
  assumes "body_due_back r = Str s" and "s \<noteq> []" and "\<not> isISO8601 lib s"
  shows "bookinstance_create_post lib new_id st r =
     (let book = escape (trim (toString (body_book r)));
          errors = isLength_min ''book'' ''Book must be specified'' 1 (trim (toString (body_book r)))
                   @ isLength_min ''imprint'' ''Imprint must be specified'' 1
                       (trim (toString (body_imprint r)))
                   @ [\<lparr>err_path = ''due_back'', err_msg = ''Invalid date'', err_value = s\<rparr>];
          bookInstance =
            new_BookInstance lib (Some new_id) (Some book)
              (Some (escape (trim (toString (body_imprint r)))))
              (Some (escape (toString (body_status r))))
              (case toDate lib s of None \<Rightarrow> Null | Some d \<Rightarrow> DateVal d)
      in case castObjectId book of
           None \<Rightarrow> (st, Next (TypeError ''Cannot read properties of undefined (reading '_id')''))
         | Some selected \<Rightarrow>
             (st, Render ''bookinstance_form''
                    [(''title'', VStr ''Create BookInstance''),
                     (''book_list'',
                      VBooks (map (select (Some [''title''])) (sort_asc book_get ''title'' (books st)))),
                     (''selected_book'', VOid selected), (''errors'', VErrors errors),
                     (''bookinstance'', VBookInstance bookInstance)]))"
  using assms
  by (simp add: bookinstance_create_post_def validate_chain_incoming
        bookinstance_create_post_handler_def validationResult_def Let_def new_BookInstance_def
        split: option.splits)

text \<open>
  C7.  The claim is that every \<^verbatim>\<open>bookinstance_create_post\<close> request whose \<^verbatim>\<open>due_back\<close>
  is not empty and not ISO 8601 gets the form rendered again.  For the request that
  leaves \<^verbatim>\<open>book\<close> empty and sends \<^verbatim>\<open>tomorrow\<close> as \<^verbatim>\<open>due_back\<close> the handler enters the
  branch for errors, as the claim says, but the document has no book, reading
  \<^verbatim>\<open>bookInstance.book._id\<close> throws, and the response is \<^verbatim>\<open>next\<close> with a \<^verbatim>\<open>TypeError\<close>:
  no form is rendered.  This holds whatever the date functions answer.
\<close>

theorem bookinstance_create_post_no_book_throws:
  "bookinstance_create_post lib new_id st
     (ex_request\<lparr>body_book := Some '''', body_imprint := Some ''Ace 1990'',
        body_status := Some ''Available'', body_due_back := Str ''tomorrow''\<rparr>) =
     (st, Next (TypeError ''Cannot read properties of undefined (reading '_id')''))"
  by (simp add: bookinstance_create_post_def validate_chain_incoming
        bookinstance_create_post_handler_def validationResult_def Let_def new_BookInstance_def
        isLength_min_def castObjectId_def trim_def toString_def escape_def ex_request_def)

end
